theory Spec2Isabelle
  imports Main "HOL-Library.AList" "HOL-Library.Sublist" "HOL-Library.Word"
begin

section \<open>The nomad-ops cluster client (backend/interfaces/nomadcluster/client.go)\<close>

text \<open>
  A shallow embedding of the reconciliation core of nomad-ops: the change classifier
  \<open>hasUpdate\<close>, the apply protocol \<open>UpdateJob\<close>, the cluster state reader
  \<open>GetCurrentClusterState\<close> and the event handler of \<open>SubscribeJobChanges\<close>.

  Go strings are byte strings (\<open>string\<close>). A Go \<open>error\<close> value is identified with the
  text its \<open>Error()\<close> method returns. A dereference of a nil pointer is the value
  \<open>Panic\<close>. A Go call returning \<open>(value, err)\<close> is a pair of options, as both
  components can be nil.
\<close>

subsection \<open>Metadata keys\<close>

definition metaKeyOps :: string where
  "metaKeyOps = ''nomadops''"

definition metaKeySrcID :: string where
  "metaKeySrcID = ''nomadopssrcid''"

definition metaKeySrcUrl :: string where
  "metaKeySrcUrl = ''nomadopssrcurl''"

definition metaKeySrcCommit :: string where
  "metaKeySrcCommit = ''nomadopssrccommit''"

definition metaKeyForceRestart :: string where
  "metaKeyForceRestart = ''nomadopsforcerestart''"

subsection \<open>Errors\<close>

type_synonym goerror = string

datatype error = Err goerror | Panic

subsection \<open>The plan response of the scheduler (types of the nomad api package)\<close>

text \<open>
  Only the shape of the diff is declared by the api package; the fields below are the
  ones \<open>hasUpdate\<close> reads, with the type and name tags every diff node carries. The
  elements of the slices are taken to be non-nil, as decoded from the scheduler's answer.
\<close>

record FieldDiff =
  FieldDiff_Type :: string
  FieldDiff_Name :: string
  FieldDiff_Old :: string
  FieldDiff_New :: string

datatype ObjectDiff =
  ObjectDiff (ObjectDiff_Type: string) (ObjectDiff_Name: string)
    (ObjectDiff_Fields: "FieldDiff list") (ObjectDiff_Objects: "ObjectDiff list")

record TaskDiff =
  TaskDiff_Type :: string
  TaskDiff_Name :: string
  TaskDiff_Fields :: "FieldDiff list"
  TaskDiff_Objects :: "ObjectDiff list"

record TaskGroupDiff =
  TaskGroupDiff_Type :: string
  TaskGroupDiff_Name :: string
  TaskGroupDiff_Fields :: "FieldDiff list"
  TaskGroupDiff_Objects :: "ObjectDiff list"
  TaskGroupDiff_Tasks :: "TaskDiff list"

record JobDiff =
  JobDiff_Type :: string
  JobDiff_ID :: string
  JobDiff_Fields :: "FieldDiff list"
  JobDiff_Objects :: "ObjectDiff list"
  JobDiff_TaskGroups :: "TaskGroupDiff list"

record JobPlanResponse =
  Diff :: "JobDiff option"
  Warnings :: string

subsection \<open>The change classifier\<close>

text \<open>\<open>fmt.Sprintf("Meta[%s]", key)\<close>.\<close>

definition sprintf_Meta :: "string \<Rightarrow> string" where
  "sprintf_Meta key = ''Meta['' @ key @ '']''"

text \<open>The loop over the tasks of one task group: the first task with a field or an object
  diff makes \<open>hasUpdate\<close> return true.\<close>

fun hasUpdate_tasks :: "TaskDiff list \<Rightarrow> bool" where
  "hasUpdate_tasks [] = False"
| "hasUpdate_tasks (task # rest) =
     (if length (TaskDiff_Fields task) > 0 then True
      else if length (TaskDiff_Objects task) > 0 then True
      else hasUpdate_tasks rest)"

text \<open>The loop over the task groups.\<close>

fun hasUpdate_taskGroups :: "TaskGroupDiff list \<Rightarrow> bool" where
  "hasUpdate_taskGroups [] = False"
| "hasUpdate_taskGroups (taskGrp # rest) =
     (if length (TaskGroupDiff_Fields taskGrp) > 0 then True
      else if length (TaskGroupDiff_Objects taskGrp) > 0 then True
      else if hasUpdate_tasks (TaskGroupDiff_Tasks taskGrp) then True
      else hasUpdate_taskGroups rest)"

definition hasUpdate :: "JobPlanResponse \<Rightarrow> bool \<Rightarrow> bool \<Rightarrow> error + bool" where
  "hasUpdate diffResp restart force =
     (case Diff diffResp of
        None \<Rightarrow> Inl Panic
      | Some d \<Rightarrow>
          (let hasDiff = False in
           if length (JobDiff_Objects d) > 0 then Inr True
           else
             (let fieldDiff = JobDiff_Fields d in
              if length fieldDiff > 0 \<and>
                 (length fieldDiff \<noteq> 1 \<or>
                  (FieldDiff_Name (fieldDiff ! 0) \<noteq> sprintf_Meta metaKeySrcCommit \<and>
                   FieldDiff_Name (fieldDiff ! 0) \<noteq> sprintf_Meta metaKeyForceRestart) \<or>
                  force \<or> restart)
              then Inr True
              else if hasUpdate_taskGroups (JobDiff_TaskGroups d) then Inr True
              else Inr hasDiff)))"

subsection \<open>Shapes of diffs the properties speak about\<close>

text \<open>A task carries a change when its field or object diff is non-empty; a task group
  when its own field or object diff is non-empty or one of its tasks carries a change.\<close>

definition task_changed :: "TaskDiff \<Rightarrow> bool" where
  "task_changed t \<longleftrightarrow> TaskDiff_Fields t \<noteq> [] \<or> TaskDiff_Objects t \<noteq> []"

definition taskGroup_changed :: "TaskGroupDiff \<Rightarrow> bool" where
  "taskGroup_changed g \<longleftrightarrow>
     TaskGroupDiff_Fields g \<noteq> [] \<or> TaskGroupDiff_Objects g \<noteq> [] \<or>
     list_ex task_changed (TaskGroupDiff_Tasks g)"

definition subgroup_changed :: "JobDiff \<Rightarrow> bool" where
  "subgroup_changed d \<longleftrightarrow> list_ex taskGroup_changed (JobDiff_TaskGroups d)"

text \<open>The names of the two bookkeeping fields as the scheduler's diff spells them.\<close>

definition revision_field :: "FieldDiff \<Rightarrow> bool" where
  "revision_field f \<longleftrightarrow> FieldDiff_Name f = ''Meta[nomadopssrccommit]''"

definition restart_nonce_field :: "FieldDiff \<Rightarrow> bool" where
  "restart_nonce_field f \<longleftrightarrow> FieldDiff_Name f = ''Meta[nomadopsforcerestart]''"

subsection \<open>Sources, jobs and the options of scheduler calls\<close>

text \<open>
  Modelled from the spec: \<open>domain.Source\<close> is declared in a package of the repository
  outside this file. The record holds the attributes the specification gives a Source
  (identifier, origin URL, target namespace, target region, and the flags
  \<open>createNamespace\<close>, \<open>paused\<close> and \<open>force\<close>), under the field names the client
  uses.
\<close>

record Source =
  Source_ID :: string
  Source_URL :: string
  Source_Namespace :: string
  Source_Region :: string
  Source_CreateNamespace :: bool
  Source_Paused :: bool
  Source_Force :: bool

text \<open>The query and write options of the api package; the client sets namespace and
  region.\<close>

record QueryOptions =
  QueryOptions_Namespace :: string
  QueryOptions_Region :: string

record WriteOptions =
  WriteOptions_Namespace :: string
  WriteOptions_Region :: string

definition getQueryOptsCtx :: "Source \<Rightarrow> QueryOptions" where
  "getQueryOptsCtx src =
     (let opts = \<lparr>QueryOptions_Namespace = [], QueryOptions_Region = []\<rparr>;
          opts = (if Source_Namespace src \<noteq> []
                  then opts\<lparr>QueryOptions_Namespace := Source_Namespace src\<rparr> else opts);
          opts = (if Source_Region src \<noteq> []
                  then opts\<lparr>QueryOptions_Region := Source_Region src\<rparr> else opts)
      in opts)"

definition getWriteOptions :: "Source \<Rightarrow> WriteOptions" where
  "getWriteOptions src =
     (let opts = \<lparr>WriteOptions_Namespace = [], WriteOptions_Region = []\<rparr>;
          opts = (if Source_Namespace src \<noteq> []
                  then opts\<lparr>WriteOptions_Namespace := Source_Namespace src\<rparr> else opts);
          opts = (if Source_Region src \<noteq> []
                  then opts\<lparr>WriteOptions_Region := Source_Region src\<rparr> else opts)
      in opts)"

text \<open>
  A Go \<open>map[string]string\<close> is an association list read with \<open>map_of\<close> and written
  with \<open>AList.update\<close>; reading a missing key gives the empty string. Go maps are
  references: a job handed to \<open>UpdateJob\<close> holds the address of its metadata map in a
  store (\<open>None\<close> is the nil map), so that writes through an alias are visible to the
  caller. A job that travels to or from the scheduler holds the contents of its map.
\<close>

type_synonym meta = "(string \<times> string) list"

type_synonym ref = nat

definition lookup :: "meta \<Rightarrow> string \<Rightarrow> string" where
  "lookup m k = (case map_of m k of None \<Rightarrow> [] | Some v \<Rightarrow> v)"

text \<open>Jobs, namespaces, deployments and list entries of the api package, with the fields
  the client reads and writes. \<open>ID\<close>, \<open>Name\<close> and \<open>Namespace\<close> of a job are pointers
  to strings.\<close>

record 'm Job =
  Job_ID :: "string option"
  Job_Name :: "string option"
  Job_Namespace :: "string option"
  Job_Meta :: 'm

record Namespace =
  Namespace_Name :: string
  Namespace_Meta :: meta

record Deployment =
  Deployment_JobID :: string
  Deployment_Status :: string

record JobListStub =
  JobListStub_ID :: string
  JobListStub_Name :: string

text \<open>
  Modelled from the spec: \<open>application.JobInfo\<close>, \<open>application.UpdateJobInfo\<close>,
  \<open>application.DeploymentStatus\<close>, \<open>application.ClusterState\<close> and
  \<open>application.GetCurrentClusterStateOptions\<close> are declared in a package of the
  repository outside this file. A WorkloadSpec (\<open>JobInfo\<close>) is a job of the scheduler
  with its provenance, of which the client reads the commit; an UpdateOutcome
  (\<open>UpdateJobInfo\<close>) says whether a write was required and gives the last known
  deployment status; a ClusterState maps the names of workloads to their live
  definitions. The source and the job are handed over by pointers that are not nil.
\<close>

record GitInfo =
  GitInfo_GitCommit :: string

record 'm JobInfo =
  JobInfo_Job :: "'m Job"
  JobInfo_GitInfo :: GitInfo

record DeploymentStatus =
  Status :: string

record UpdateJobInfo =
  Updated :: bool
  UpdateJobInfo_DeploymentStatus :: DeploymentStatus

record ClusterState =
  CurrentJobs :: "string \<rightharpoonup> meta option JobInfo"

record GetCurrentClusterStateOptions =
  Options_Source :: Source

subsection \<open>The scheduler and the world\<close>

text \<open>
  Every request the client sends is appended to a log. The scheduler is a parameter: for
  each request it gives the answer, which may depend on all requests sent before.
\<close>

datatype call =
  Namespaces_Register Namespace WriteOptions
| Jobs_Plan "meta option Job" bool WriteOptions
| Jobs_LatestDeployment string QueryOptions
| Jobs_Register "meta option Job" WriteOptions
| Jobs_Deregister string bool WriteOptions
| Jobs_List QueryOptions
| Jobs_Info string QueryOptions

record Scheduler =
  reply_Namespaces_Register :: "call list \<Rightarrow> Namespace \<Rightarrow> WriteOptions \<Rightarrow> goerror option"
  reply_Jobs_Plan ::
    "call list \<Rightarrow> meta option Job \<Rightarrow> bool \<Rightarrow> WriteOptions
       \<Rightarrow> JobPlanResponse option \<times> goerror option"
  reply_Jobs_LatestDeployment ::
    "call list \<Rightarrow> string \<Rightarrow> QueryOptions \<Rightarrow> Deployment option \<times> goerror option"
  reply_Jobs_Register :: "call list \<Rightarrow> meta option Job \<Rightarrow> WriteOptions \<Rightarrow> goerror option"
  reply_Jobs_Deregister :: "call list \<Rightarrow> string \<Rightarrow> bool \<Rightarrow> WriteOptions \<Rightarrow> goerror option"
  reply_Jobs_List :: "call list \<Rightarrow> QueryOptions \<Rightarrow> JobListStub list \<times> goerror option"
  reply_Jobs_Info ::
    "call list \<Rightarrow> string \<Rightarrow> QueryOptions \<Rightarrow> meta option Job option \<times> goerror option"

record world =
  calls :: "call list"
  heap :: "ref \<Rightarrow> meta"
  fresh :: ref

definition send :: "call \<Rightarrow> world \<Rightarrow> world" where
  "send c w = w\<lparr>calls := calls w @ [c]\<rparr>"

text \<open>\<open>map[string]string{}\<close>: a new, empty map at an address not used before.\<close>

definition new_map :: "world \<Rightarrow> ref \<times> world" where
  "new_map w = (fresh w, w\<lparr>heap := (heap w)(fresh w := []), fresh := Suc (fresh w)\<rparr>)"

text \<open>\<open>m[k] = v\<close> on the map at address \<open>r\<close>.\<close>

definition store :: "ref \<Rightarrow> string \<Rightarrow> string \<Rightarrow> world \<Rightarrow> world" where
  "store r k v w = w\<lparr>heap := (heap w)(r := AList.update k v (heap w r))\<rparr>"

text \<open>The job as the scheduler receives it: the metadata map by its contents.\<close>

definition snapshot :: "world \<Rightarrow> ref option Job \<Rightarrow> meta option Job" where
  "snapshot w j =
     \<lparr>Job_ID = Job_ID j, Job_Name = Job_Name j, Job_Namespace = Job_Namespace j,
      Job_Meta = map_option (heap w) (Job_Meta j)\<rparr>"

subsection \<open>\<open>strings.ToLower\<close> and \<open>strings.Contains\<close>\<close>

text \<open>Lower-casing acts on the ASCII letters; every other byte is kept.\<close>

definition toLower_byte :: "char \<Rightarrow> char" where
  "toLower_byte c =
     (if 65 \<le> (of_char c :: nat) \<and> (of_char c :: nat) \<le> 90
      then char_of ((of_char c :: nat) + 32) else c)"

definition ToLower :: "string \<Rightarrow> string" where
  "ToLower s = map toLower_byte s"

fun Contains :: "string \<Rightarrow> string \<Rightarrow> bool" where
  "Contains [] substr = (substr = [])"
| "Contains (c # s) substr = (prefix substr (c # s) \<or> Contains s substr)"

subsection \<open>The apply protocol \<open>UpdateJob\<close>\<close>

text \<open>Lines 215 to 229: the namespace of the job is registered when the source asks
  for it.\<close>

definition UpdateJob_namespace ::
  "Scheduler \<Rightarrow> Source \<Rightarrow> ref option JobInfo \<Rightarrow> world \<Rightarrow> error option \<times> world" where
  "UpdateJob_namespace sch src job w =
     (if Source_CreateNamespace src then
        (case Job_Namespace (JobInfo_Job job) of
           None \<Rightarrow>
             (Some (Err (''require a namespace to be set in conjunction with '' @
                        [CHR 0x27] @ ''CreateNamespace'' @ [CHR 0x27])), w)
         | Some ns \<Rightarrow>
             (let n = \<lparr>Namespace_Name = ns, Namespace_Meta = [(metaKeyOps, ''true'')]\<rparr>;
                  err = reply_Namespaces_Register sch (calls w) n (getWriteOptions src);
                  w = send (Namespaces_Register n (getWriteOptions src)) w
              in case err of Some e \<Rightarrow> (Some (Err e), w) | None \<Rightarrow> (None, w)))
      else (None, w))"

text \<open>Lines 231 to 246: the job is claimed. \<open>metadata\<close> is the job's own map, or a new
  one when the job has none; \<open>now\<close> is \<open>time.Now()\<close> in RFC 3339 format.\<close>

definition UpdateJob_claim ::
  "Source \<Rightarrow> ref option JobInfo \<Rightarrow> bool \<Rightarrow> string \<Rightarrow> world \<Rightarrow> ref option JobInfo \<times> world"
  where
  "UpdateJob_claim src job restart now w =
     (let (metadata, w) =
            (case Job_Meta (JobInfo_Job job) of None \<Rightarrow> new_map w | Some r \<Rightarrow> (r, w));
          w = store metadata metaKeyOps ''true'' w;
          w = store metadata metaKeySrcUrl (Source_URL src) w;
          w = store metadata metaKeySrcID (Source_ID src) w;
          w = store metadata metaKeySrcCommit (GitInfo_GitCommit (JobInfo_GitInfo job)) w;
          w = (if restart then store metadata metaKeyForceRestart now w else w);
          job = job\<lparr>JobInfo_Job := (JobInfo_Job job)\<lparr>Job_Meta := Some metadata\<rparr>\<rparr>
      in (job, w))"

text \<open>Lines 215 to 251: namespace, claim and the dry-run plan.\<close>

definition UpdateJob_plan ::
  "Scheduler \<Rightarrow> Source \<Rightarrow> ref option JobInfo \<Rightarrow> bool \<Rightarrow> string \<Rightarrow> world
     \<Rightarrow> (error + JobPlanResponse option) \<times> ref option JobInfo \<times> world" where
  "UpdateJob_plan sch src job restart now w =
     (case UpdateJob_namespace sch src job w of
        (Some e, w) \<Rightarrow> (Inl e, job, w)
      | (None, w) \<Rightarrow>
          (let (job, w) = UpdateJob_claim src job restart now w;
               j = snapshot w (JobInfo_Job job);
               (resp, err) = reply_Jobs_Plan sch (calls w) j True (getWriteOptions src);
               w = send (Jobs_Plan j True (getWriteOptions src)) w
           in case err of Some e \<Rightarrow> (Inl (Err e), job, w) | None \<Rightarrow> (Inr resp, job, w)))"

text \<open>Lines 253 to 265: the status of the latest deployment.\<close>

definition UpdateJob_status ::
  "Scheduler \<Rightarrow> Source \<Rightarrow> ref option JobInfo \<Rightarrow> world \<Rightarrow> (error + string) \<times> world" where
  "UpdateJob_status sch src job w =
     (let deploymentStatus = [] in
      case Job_ID (JobInfo_Job job) of
        None \<Rightarrow> (Inl Panic, w)
      | Some jid \<Rightarrow>
          (let (deployment, err) =
                 reply_Jobs_LatestDeployment sch (calls w) jid (getQueryOptsCtx src);
               w = send (Jobs_LatestDeployment jid (getQueryOptsCtx src)) w;
               found =
                 (case deployment of
                    Some d \<Rightarrow> (Inr (Deployment_Status d), w)
                  | None \<Rightarrow> (Inr deploymentStatus, w))
           in case err of
                Some e \<Rightarrow>
                  if \<not> Contains (ToLower e) ''not found'' then (Inl (Err e), w) else found
              | None \<Rightarrow> found))"

text \<open>Lines 267 to 293: the classifier decides, and the job is registered unless the
  source is paused.\<close>

definition UpdateJob_apply ::
  "Scheduler \<Rightarrow> Source \<Rightarrow> ref option JobInfo \<Rightarrow> bool \<Rightarrow> JobPlanResponse option \<Rightarrow> string
     \<Rightarrow> world \<Rightarrow> (error + UpdateJobInfo) \<times> world" where
  "UpdateJob_apply sch src job restart resp deploymentStatus w =
     (case resp of
        None \<Rightarrow> (Inl Panic, w)
      | Some r \<Rightarrow>
          (case hasUpdate r restart (Source_Force src) of
             Inl e \<Rightarrow> (Inl e, w)
           | Inr False \<Rightarrow>
               (Inr \<lparr>Updated = False,
                     UpdateJobInfo_DeploymentStatus = \<lparr>Status = deploymentStatus\<rparr>\<rparr>, w)
           | Inr True \<Rightarrow>
               (let updated =
                      Inr \<lparr>Updated = True,
                           UpdateJobInfo_DeploymentStatus = \<lparr>Status = deploymentStatus\<rparr>\<rparr>
                in if \<not> Source_Paused src then
                     (let j = snapshot w (JobInfo_Job job);
                          err = reply_Jobs_Register sch (calls w) j (getWriteOptions src);
                          w = send (Jobs_Register j (getWriteOptions src)) w
                      in case err of Some e \<Rightarrow> (Inl (Err e), w) | None \<Rightarrow> (updated, w))
                   else (updated, w))))"

text \<open>The whole of \<open>UpdateJob\<close>. Beside its result it gives back the job, which it
  changes through the pointer it received, and the world.\<close>

definition UpdateJob ::
  "Scheduler \<Rightarrow> Source \<Rightarrow> ref option JobInfo \<Rightarrow> bool \<Rightarrow> string \<Rightarrow> world
     \<Rightarrow> (error + UpdateJobInfo) \<times> ref option JobInfo \<times> world" where
  "UpdateJob sch src job restart now w =
     (case UpdateJob_plan sch src job restart now w of
        (Inl e, job, w) \<Rightarrow> (Inl e, job, w)
      | (Inr resp, job, w) \<Rightarrow>
          (case UpdateJob_status sch src job w of
             (Inl e, w) \<Rightarrow> (Inl e, job, w)
           | (Inr deploymentStatus, w) \<Rightarrow>
               (case UpdateJob_apply sch src job restart resp deploymentStatus w of
                  (res, w) \<Rightarrow> (res, job, w))))"

definition is_Jobs_Register :: "call \<Rightarrow> bool" where
  "is_Jobs_Register c = (case c of Jobs_Register j opts \<Rightarrow> True | _ \<Rightarrow> False)"

text \<open>
  What the claim of a job is expected to do, in the words of the specification: the
  metadata map it writes to, the contents of that map before, and the tags it sets.
\<close>

definition metadata_ref :: "ref option JobInfo \<Rightarrow> world \<Rightarrow> ref" where
  "metadata_ref job w = (case Job_Meta (JobInfo_Job job) of None \<Rightarrow> fresh w | Some r \<Rightarrow> r)"

definition metadata_before :: "ref option JobInfo \<Rightarrow> world \<Rightarrow> meta" where
  "metadata_before job w =
     (case Job_Meta (JobInfo_Job job) of None \<Rightarrow> [] | Some r \<Rightarrow> heap w r)"

definition tags ::
  "Source \<Rightarrow> ref option JobInfo \<Rightarrow> bool \<Rightarrow> string \<Rightarrow> string \<rightharpoonup> string" where
  "tags src job restart now =
     [metaKeyOps \<mapsto> ''true'', metaKeySrcID \<mapsto> Source_ID src,
      metaKeySrcUrl \<mapsto> Source_URL src,
      metaKeySrcCommit \<mapsto> GitInfo_GitCommit (JobInfo_GitInfo job)] ++
     (if restart then [metaKeyForceRestart \<mapsto> now] else Map.empty)"

text \<open>The contents of the metadata map after the writes of lines 237 to 244, from its
  contents before.\<close>

definition written :: "Source \<Rightarrow> ref option JobInfo \<Rightarrow> bool \<Rightarrow> string \<Rightarrow> meta \<Rightarrow> meta" where
  "written src job restart now m =
     (let m = AList.update metaKeySrcCommit (GitInfo_GitCommit (JobInfo_GitInfo job))
               (AList.update metaKeySrcID (Source_ID src)
                 (AList.update metaKeySrcUrl (Source_URL src)
                   (AList.update metaKeyOps ''true'' m)))
      in if restart then AList.update metaKeyForceRestart now m else m)"

subsection \<open>\<open>DeleteJob\<close>\<close>

definition DeleteJob ::
  "Scheduler \<Rightarrow> Source \<Rightarrow> ref option JobInfo \<Rightarrow> world \<Rightarrow> error option \<times> world" where
  "DeleteJob sch src job w =
     (case Job_Name (JobInfo_Job job) of
        None \<Rightarrow> (Some Panic, w)
      | Some name \<Rightarrow>
          (let err = reply_Jobs_Deregister sch (calls w) name False (getWriteOptions src);
               w = send (Jobs_Deregister name False (getWriteOptions src)) w
           in case err of Some e \<Rightarrow> (Some (Err e), w) | None \<Rightarrow> (None, w)))"

subsection \<open>The cluster state reader \<open>GetCurrentClusterState\<close>\<close>

text \<open>The loop over the listing (lines 324 to 343), with the cluster state built so far.\<close>

fun GetCurrentClusterState_loop ::
  "Scheduler \<Rightarrow> GetCurrentClusterStateOptions \<Rightarrow> JobListStub list \<Rightarrow> ClusterState \<Rightarrow> world
     \<Rightarrow> (error + ClusterState) \<times> world" where
  "GetCurrentClusterState_loop sch opts [] clusterState w = (Inr clusterState, w)"
| "GetCurrentClusterState_loop sch opts (job # rest) clusterState w =
     (let qopts = getQueryOptsCtx (Options_Source opts);
          (j, err) = reply_Jobs_Info sch (calls w) (JobListStub_Name job) qopts;
          w = send (Jobs_Info (JobListStub_Name job) qopts) w
      in case err of
           Some e \<Rightarrow> (Inl (Err e), w)
         | None \<Rightarrow>
             (case j of
                None \<Rightarrow> (Inl Panic, w)
              | Some j \<Rightarrow>
                  (let m = (case Job_Meta j of None \<Rightarrow> [] | Some m \<Rightarrow> m) in
                   if length m = 0 then GetCurrentClusterState_loop sch opts rest clusterState w
                   else if lookup m metaKeySrcID \<noteq> Source_ID (Options_Source opts)
                   then GetCurrentClusterState_loop sch opts rest clusterState w
                   else GetCurrentClusterState_loop sch opts rest
                          (clusterState\<lparr>CurrentJobs := (CurrentJobs clusterState)
                             (JobListStub_Name job \<mapsto>
                                \<lparr>JobInfo_Job = j,
                                 JobInfo_GitInfo = \<lparr>GitInfo_GitCommit = []\<rparr>\<rparr>)\<rparr>) w)))"

definition GetCurrentClusterState ::
  "Scheduler \<Rightarrow> GetCurrentClusterStateOptions \<Rightarrow> world \<Rightarrow> (error + ClusterState) \<times> world"
  where
  "GetCurrentClusterState sch opts w =
     (let qopts = getQueryOptsCtx (Options_Source opts);
          (joblist, err) = reply_Jobs_List sch (calls w) qopts;
          w = send (Jobs_List qopts) w
      in case err of
           Some e \<Rightarrow> (Inl (Err e), w)
         | None \<Rightarrow>
             GetCurrentClusterState_loop sch opts joblist \<lparr>CurrentJobs = Map.empty\<rparr> w)"

text \<open>Ownership as the specification words it: the metadata carries the ownership marker
  and the identifier of the source.\<close>

definition owned :: "Source \<Rightarrow> meta option \<Rightarrow> bool" where
  "owned src mo \<longleftrightarrow>
     (case mo of
        None \<Rightarrow> False
      | Some m \<Rightarrow>
          map_of m metaKeyOps = Some ''true'' \<and> map_of m metaKeySrcID = Some (Source_ID src))"

text \<open>What the reader checks: the metadata is not empty and reading the source
  identifier from it gives the identifier of the source.\<close>

definition claimed_by :: "Source \<Rightarrow> meta option \<Rightarrow> bool" where
  "claimed_by src mo \<longleftrightarrow>
     (case mo of None \<Rightarrow> False | Some m \<Rightarrow> m \<noteq> [] \<and> lookup m metaKeySrcID = Source_ID src)"

text \<open>The definition the reader fetches for entry \<open>i\<close> of the listing: the answer of
  the scheduler to \<open>Jobs.Info\<close> for the name of that entry, after the calls of the log
  \<open>log0\<close> and the fetches for the entries before it.\<close>

definition fetched ::
  "Scheduler \<Rightarrow> QueryOptions \<Rightarrow> call list \<Rightarrow> JobListStub list \<Rightarrow> nat
     \<Rightarrow> meta option Job option" where
  "fetched sch qopts log0 joblist i =
     fst (reply_Jobs_Info sch
            (log0 @ map (\<lambda>s. Jobs_Info (JobListStub_Name s) qopts) (take i joblist))
            (JobListStub_Name (joblist ! i)) qopts)"

subsection \<open>The change event watcher \<open>SubscribeJobChanges\<close>\<close>

text \<open>
  An event of the stream carries its type and a payload. Decoding the payload
  (\<open>Event.Job\<close> and \<open>Event.Deployment\<close> of the api package) either fails or gives the
  job and the deployment found in it, each of which may be absent. A batch with index 0
  and no event is a heartbeat.
\<close>

record eventPayload =
  Payload_Job :: "meta option Job option"
  Payload_Deployment :: "Deployment option"

record Event =
  Event_Topic :: string
  Event_Type :: string
  Event_Payload :: "goerror + eventPayload"

record Events =
  Events_Index :: "64 word"
  Events_Err :: "goerror option"
  Events_Events :: "Event list"

definition Event_Job :: "Event \<Rightarrow> meta option Job option \<times> goerror option" where
  "Event_Job e =
     (case Event_Payload e of Inl err \<Rightarrow> (None, Some err) | Inr out \<Rightarrow> (Payload_Job out, None))"

definition Event_Deployment :: "Event \<Rightarrow> Deployment option \<times> goerror option" where
  "Event_Deployment e =
     (case Event_Payload e of
        Inl err \<Rightarrow> (None, Some err)
      | Inr out \<Rightarrow> (Payload_Deployment out, None))"

definition IsHeartbeat :: "Events \<Rightarrow> bool" where
  "IsHeartbeat events \<longleftrightarrow> Events_Index events = 0 \<and> length (Events_Events events) = 0"

text \<open>
  The event handler (lines 84 to 107). The callback is opaque to the client: what is
  kept of it is the list of the job names it was invoked with, in order. The first
  component of the result is \<open>Some Panic\<close> when the handler dereferences a nil pointer.
\<close>

fun eventHandler_loop :: "Event list \<Rightarrow> string list \<Rightarrow> error option \<times> string list" where
  "eventHandler_loop [] cb = (None, cb)"
| "eventHandler_loop (e # rest) cb =
     (if Event_Type e = ''JobRegistered'' \<or> Event_Type e = ''JobDeregistered'' then
        (case Event_Job e of
           (job, Some err) \<Rightarrow> (None, cb)
         | (None, None) \<Rightarrow> (Some Panic, cb)
         | (Some job, None) \<Rightarrow>
             (case Job_ID job of
                None \<Rightarrow> (Some Panic, cb)
              | Some jid \<Rightarrow> eventHandler_loop rest (cb @ [jid])))
      else if Event_Type e = ''DeploymentStatusUpdate'' then
        (case Event_Deployment e of
           (dep, Some err) \<Rightarrow> (None, cb)
         | (None, None) \<Rightarrow> (Some Panic, cb)
         | (Some dep, None) \<Rightarrow> eventHandler_loop rest (cb @ [Deployment_JobID dep]))
      else eventHandler_loop rest cb)"

definition eventHandler :: "Events \<Rightarrow> string list \<Rightarrow> error option \<times> string list" where
  "eventHandler event cb = eventHandler_loop (Events_Events event) cb"

text \<open>
  The subscription loop (lines 109 to 124) over the outcomes of its \<open>select\<close>, in the
  order they happen: the context is done, or a batch arrives. When nothing more has
  happened the loop is waiting in the \<open>select\<close>.
\<close>

datatype selected = Ctx_Done | Received Events

datatype loop_state = Waiting | Returned | Crashed

fun subscription_loop :: "selected list \<Rightarrow> string list \<Rightarrow> loop_state \<times> string list" where
  "subscription_loop [] cb = (Waiting, cb)"
| "subscription_loop (Ctx_Done # rest) cb = (Returned, cb)"
| "subscription_loop (Received events # rest) cb =
     (if IsHeartbeat events then subscription_loop rest cb
      else (case eventHandler events cb of
              (Some p, cb) \<Rightarrow> (Crashed, cb)
            | (None, cb) \<Rightarrow> subscription_loop rest cb))"

text \<open>The names the callback is owed by a batch: one for every event of the three handled
  types whose payload decodes to a job with an identifier, or to a deployment.\<close>

fun decodable_name :: "Event \<Rightarrow> string option" where
  "decodable_name e =
     (if Event_Type e = ''JobRegistered'' \<or> Event_Type e = ''JobDeregistered'' then
        (case Event_Job e of
           (Some job, None) \<Rightarrow> Job_ID job
         | _ \<Rightarrow> None)
      else if Event_Type e = ''DeploymentStatusUpdate'' then
        (case Event_Deployment e of
           (Some dep, None) \<Rightarrow> Some (Deployment_JobID dep)
         | _ \<Rightarrow> None)
      else None)"

subsection \<open>Diffs with bookkeeping changes only\<close>

text \<open>The only change of the diff is the revision stamp: no top-level object, one
  top-level field, which is the source revision, and no change in any task group or task.\<close>

definition only_revision_changed :: "JobDiff \<Rightarrow> bool" where
  "only_revision_changed d \<longleftrightarrow>
     JobDiff_Objects d = [] \<and> length (JobDiff_Fields d) = 1 \<and>
     revision_field (hd (JobDiff_Fields d)) \<and> \<not> subgroup_changed d"

text \<open>The only top-level field of the diff is the revision stamp or the restart nonce.\<close>

definition single_noise_field :: "JobDiff \<Rightarrow> bool" where
  "single_noise_field d \<longleftrightarrow>
     length (JobDiff_Fields d) = 1 \<and>
     (revision_field (hd (JobDiff_Fields d)) \<or> restart_nonce_field (hd (JobDiff_Fields d)))"

definition noise_only :: "JobDiff \<Rightarrow> bool" where
  "noise_only d \<longleftrightarrow> JobDiff_Objects d = [] \<and> single_noise_field d \<and> \<not> subgroup_changed d"

subsection \<open>Example inputs\<close>

definition field_commit :: FieldDiff where
  "field_commit =
     \<lparr>FieldDiff_Type = ''Edited'', FieldDiff_Name = ''Meta[nomadopssrccommit]'',
      FieldDiff_Old = ''abc'', FieldDiff_New = ''def''\<rparr>"

definition field_restart :: FieldDiff where
  "field_restart =
     \<lparr>FieldDiff_Type = ''Added'', FieldDiff_Name = ''Meta[nomadopsforcerestart]'',
      FieldDiff_Old = [], FieldDiff_New = ''2024-05-01T10:00:00.000000001Z''\<rparr>"

definition field_count :: FieldDiff where
  "field_count =
     \<lparr>FieldDiff_Type = ''Edited'', FieldDiff_Name = ''Count'',
      FieldDiff_Old = ''1'', FieldDiff_New = ''2''\<rparr>"

definition task_same :: TaskDiff where
  "task_same =
     \<lparr>TaskDiff_Type = ''None'', TaskDiff_Name = ''server'', TaskDiff_Fields = [],
      TaskDiff_Objects = []\<rparr>"

definition group_same :: TaskGroupDiff where
  "group_same =
     \<lparr>TaskGroupDiff_Type = ''None'', TaskGroupDiff_Name = ''app'', TaskGroupDiff_Fields = [],
      TaskGroupDiff_Objects = [], TaskGroupDiff_Tasks = [task_same]\<rparr>"

definition group_task_edited :: TaskGroupDiff where
  "group_task_edited =
     \<lparr>TaskGroupDiff_Type = ''Edited'', TaskGroupDiff_Name = ''app'',
      TaskGroupDiff_Fields = [], TaskGroupDiff_Objects = [],
      TaskGroupDiff_Tasks = [task_same, task_same\<lparr>TaskDiff_Fields := [field_count]\<rparr>]\<rparr>"

definition diff_of :: "FieldDiff list \<Rightarrow> TaskGroupDiff list \<Rightarrow> JobDiff" where
  "diff_of fs gs =
     \<lparr>JobDiff_Type = ''Edited'', JobDiff_ID = ''web'', JobDiff_Fields = fs,
      JobDiff_Objects = [], JobDiff_TaskGroups = gs\<rparr>"

definition plan_of :: "JobDiff \<Rightarrow> JobPlanResponse" where
  "plan_of d = \<lparr>Diff = Some d, Warnings = []\<rparr>"

definition world0 :: world where
  "world0 = \<lparr>calls = [], heap = (\<lambda>r. []), fresh = 0\<rparr>"

definition source_s1 :: Source where
  "source_s1 =
     \<lparr>Source_ID = ''s1'', Source_URL = ''https://git.example/repo.git'',
      Source_Namespace = ''ns1'', Source_Region = [], Source_CreateNamespace = False,
      Source_Paused = False, Source_Force = False\<rparr>"

definition live_job :: "string \<Rightarrow> meta option \<Rightarrow> meta option Job" where
  "live_job name m =
     \<lparr>Job_ID = Some name, Job_Name = Some name, Job_Namespace = Some ''ns1'', Job_Meta = m\<rparr>"

definition job_info :: "'m Job \<Rightarrow> 'm JobInfo" where
  "job_info j = \<lparr>JobInfo_Job = j, JobInfo_GitInfo = \<lparr>GitInfo_GitCommit = []\<rparr>\<rparr>"

text \<open>A scheduler with no job: plans show no change, there is no deployment yet.\<close>

definition quiet_scheduler :: Scheduler where
  "quiet_scheduler =
     \<lparr>reply_Namespaces_Register = (\<lambda>log n opts. None),
      reply_Jobs_Plan = (\<lambda>log j diff opts. (Some (plan_of (diff_of [] [])), None)),
      reply_Jobs_LatestDeployment = (\<lambda>log jid opts. (None, None)),
      reply_Jobs_Register = (\<lambda>log j opts. None),
      reply_Jobs_Deregister = (\<lambda>log name purge opts. None),
      reply_Jobs_List = (\<lambda>log opts. ([], None)),
      reply_Jobs_Info = (\<lambda>log name opts. (None, Some ''job not found''))\<rparr>"

text \<open>A scheduler with four jobs: one without metadata, one owned by source \<open>s1\<close>, one
  owned by source \<open>s2\<close>, and one that names source \<open>s1\<close> but has no ownership marker.\<close>

definition mixed_meta :: "string \<Rightarrow> meta option" where
  "mixed_meta name =
     (if name = ''web'' then Some [(''nomadops'', ''true''), (''nomadopssrcid'', ''s1'')]
      else if name = ''other'' then Some [(''nomadops'', ''true''), (''nomadopssrcid'', ''s2'')]
      else if name = ''stray'' then Some [(''nomadopssrcid'', ''s1'')]
      else None)"

definition mixed_listing :: "JobListStub list" where
  "mixed_listing =
     map (\<lambda>n. \<lparr>JobListStub_ID = n, JobListStub_Name = n\<rparr>)
       [''unmanaged'', ''web'', ''other'', ''stray'']"

definition mixed_scheduler :: Scheduler where
  "mixed_scheduler =
     quiet_scheduler
       \<lparr>reply_Jobs_List := (\<lambda>log opts. (mixed_listing, None)),
        reply_Jobs_Info := (\<lambda>log name opts. (Some (live_job name (mixed_meta name)), None))\<rparr>"

definition mixed_state :: ClusterState where
  "mixed_state =
     \<lparr>CurrentJobs =
        [''web'' \<mapsto> job_info (live_job ''web'' (mixed_meta ''web'')),
         ''stray'' \<mapsto> job_info (live_job ''stray'' (mixed_meta ''stray''))]\<rparr>"

text \<open>A desired job of commit \<open>def\<close>, with its metadata map at the given address.\<close>

definition desired_job :: "ref option \<Rightarrow> ref option JobInfo" where
  "desired_job m =
     \<lparr>JobInfo_Job = \<lparr>Job_ID = Some ''web'', Job_Name = Some ''web'',
        Job_Namespace = Some ''ns1'', Job_Meta = m\<rparr>,
      JobInfo_GitInfo = \<lparr>GitInfo_GitCommit = ''def''\<rparr>\<rparr>"

text \<open>A world in which the map at address 0 holds one entry of the caller.\<close>

definition world1 :: world where
  "world1 =
     \<lparr>calls = [], heap = (\<lambda>r. if r = 0 then [(''team'', ''ops'')] else []), fresh = 1\<rparr>"

definition now0 :: string where
  "now0 = ''2024-05-01T10:00:00.000000001Z''"

text \<open>A scheduler whose plan shows a changed count and whose latest deployment was
  successful.\<close>

definition changed_scheduler :: Scheduler where
  "changed_scheduler =
     quiet_scheduler
       \<lparr>reply_Jobs_Plan :=
          (\<lambda>log j diff opts. (Some (plan_of (diff_of [field_count] [])), None)),
        reply_Jobs_LatestDeployment :=
          (\<lambda>log jid opts.
             (Some \<lparr>Deployment_JobID = jid, Deployment_Status = ''successful''\<rparr>, None))\<rparr>"

text \<open>A scheduler whose deployment query fails with the given error.\<close>

definition failing_scheduler :: "goerror \<Rightarrow> Scheduler" where
  "failing_scheduler e =
     quiet_scheduler\<lparr>reply_Jobs_LatestDeployment := (\<lambda>log jid opts. (None, Some e))\<rparr>"

definition not_found_404 :: goerror where
  "not_found_404 = ''Unexpected response code: 404 (Job Not Found)''"

definition server_error_500 :: goerror where
  "server_error_500 = ''Unexpected response code: 500 (rpc error)''"

text \<open>A batch whose first event cannot be decoded, followed by two events that can, and
  a later batch.\<close>

definition event_malformed :: Event where
  "event_malformed =
     \<lparr>Event_Topic = ''Job'', Event_Type = ''JobRegistered'',
      Event_Payload = Inl ''cannot decode payload''\<rparr>"

definition event_job :: "string \<Rightarrow> string \<Rightarrow> Event" where
  "event_job ty name =
     \<lparr>Event_Topic = ''Job'', Event_Type = ty,
      Event_Payload =
        Inr \<lparr>Payload_Job = Some (live_job name None), Payload_Deployment = None\<rparr>\<rparr>"

definition event_deployment :: "string \<Rightarrow> Event" where
  "event_deployment name =
     \<lparr>Event_Topic = ''Deployment'', Event_Type = ''DeploymentStatusUpdate'',
      Event_Payload =
        Inr \<lparr>Payload_Job = None,
             Payload_Deployment =
               Some \<lparr>Deployment_JobID = name, Deployment_Status = ''running''\<rparr>\<rparr>\<rparr>"

definition batch_of :: "Event list \<Rightarrow> Events" where
  "batch_of es = \<lparr>Events_Index = 7, Events_Err = None, Events_Events = es\<rparr>"

section \<open>Properties of the change classifier\<close>

lemmas metaKey_defs =
  metaKeyOps_def metaKeySrcID_def metaKeySrcUrl_def metaKeySrcCommit_def
  metaKeyForceRestart_def

lemma hasUpdate_tasks_iff: "hasUpdate_tasks ts \<longleftrightarrow> list_ex task_changed ts"
  by (induction ts) (simp_all add: task_changed_def)

lemma hasUpdate_taskGroups_iff:
  "hasUpdate_taskGroups gs \<longleftrightarrow> list_ex taskGroup_changed gs"
  by (induction gs) (simp_all add: taskGroup_changed_def hasUpdate_tasks_iff)

lemma sprintf_Meta_commit: "sprintf_Meta metaKeySrcCommit = ''Meta[nomadopssrccommit]''"
  by (simp add: sprintf_Meta_def metaKeySrcCommit_def)

lemma sprintf_Meta_restart:
  "sprintf_Meta metaKeyForceRestart = ''Meta[nomadopsforcerestart]''"
  by (simp add: sprintf_Meta_def metaKeyForceRestart_def)

text \<open>The classifier in closed form, for a response that carries a diff.\<close>

lemma hasUpdate_Some:
  assumes "Diff resp = Some d"
  shows "hasUpdate resp restart force =
     Inr (JobDiff_Objects d \<noteq> [] \<or>
          (JobDiff_Fields d \<noteq> [] \<and>
             (length (JobDiff_Fields d) \<noteq> 1 \<or>
              (\<not> revision_field (hd (JobDiff_Fields d)) \<and>
               \<not> restart_nonce_field (hd (JobDiff_Fields d))) \<or>
              force \<or> restart)) \<or>
          subgroup_changed d)"
proof -
  have hd0: "JobDiff_Fields d \<noteq> [] \<Longrightarrow> JobDiff_Fields d ! 0 = hd (JobDiff_Fields d)"
    by (simp add: hd_conv_nth)
  show ?thesis
    using assms hd0
    by (auto simp: hasUpdate_def Let_def hasUpdate_taskGroups_iff subgroup_changed_def
        revision_field_def restart_nonce_field_def sprintf_Meta_commit sprintf_Meta_restart)
qed


lemmas example_diff_defs =
  field_commit_def field_restart_def field_count_def task_same_def group_same_def
  group_task_edited_def diff_of_def plan_of_def

lemmas shape_defs =
  only_revision_changed_def single_noise_field_def noise_only_def revision_field_def
  restart_nonce_field_def subgroup_changed_def taskGroup_changed_def task_changed_def

text \<open>When the classifier answers no, the last part of \<open>UpdateJob\<close> sends nothing.\<close>

lemma UpdateJob_apply_up_to_date:
  assumes "hasUpdate r restart (Source_Force src) = Inr False"
  shows "UpdateJob_apply sch src job restart (Some r) st w =
     (Inr \<lparr>Updated = False, UpdateJobInfo_DeploymentStatus = \<lparr>Status = st\<rparr>\<rparr>, w)"
  using assms by (simp add: UpdateJob_apply_def)

text \<open>
  C2 (noise suppression). When the only change of the diff is the top-level source
  revision field, \<open>hasUpdate\<close> with \<open>restart = false\<close> and \<open>force = false\<close> returns
  false; for a source without the force flag the last part of \<open>UpdateJob\<close> then
  reports \<open>Updated = false\<close> and leaves the world as it is, so that nothing is written.
\<close>

theorem hasUpdate_revision_only_no_update:
  assumes "Diff resp = Some d" and "only_revision_changed d" and "\<not> Source_Force src"
  shows "hasUpdate resp False False = Inr False \<and>
         UpdateJob_apply sch src job False (Some resp) st w =
           (Inr \<lparr>Updated = False, UpdateJobInfo_DeploymentStatus = \<lparr>Status = st\<rparr>\<rparr>, w)"
proof -
  have h: "hasUpdate resp False False = Inr False"
    using assms(2) by (simp add: hasUpdate_Some [OF assms(1)] only_revision_changed_def)
  with assms(3) have "hasUpdate resp False (Source_Force src) = Inr False"
    by simp
  from h UpdateJob_apply_up_to_date [OF this] show ?thesis
    by simp
qed

theorem hasUpdate_revision_only_no_update_witness:
  "only_revision_changed (diff_of [field_commit] [group_same]) \<and>
   \<not> Source_Force source_s1 \<and>
   hasUpdate (plan_of (diff_of [field_commit] [group_same])) False False = Inr False \<and>
   UpdateJob_apply quiet_scheduler source_s1 (desired_job None) False
     (Some (plan_of (diff_of [field_commit] [group_same]))) ''successful'' world0 =
     (Inr \<lparr>Updated = False, UpdateJobInfo_DeploymentStatus = \<lparr>Status = ''successful''\<rparr>\<rparr>,
      world0)"
proof -
  let ?d = "diff_of [field_commit] [group_same]"
  have d: "Diff (plan_of ?d) = Some ?d"
    by (simp add: plan_of_def)
  have o: "only_revision_changed ?d"
    by (simp add: shape_defs example_diff_defs)
  have f: "\<not> Source_Force source_s1"
    by (simp add: source_s1_def)
  from hasUpdate_revision_only_no_update [OF d o f] o f show ?thesis
    by simp
qed

text \<open>
  C3, as stated, fails: on the entirely empty diff \<open>hasUpdate\<close> returns false although
  \<open>force\<close> is true, whatever \<open>restart\<close> is.
\<close>

theorem hasUpdate_force_empty_diff_counterexample:
  "hasUpdate (plan_of (diff_of [] [])) False True = Inr False \<and>
   hasUpdate (plan_of (diff_of [] [])) True True = Inr False"
  by (simp add: hasUpdate_def example_diff_defs)

text \<open>
  C3, amended. With \<open>force = true\<close>, and for every value of \<open>restart\<close>, \<open>hasUpdate\<close>
  returns true exactly when the diff has at least one entry: a top-level object, a
  top-level field, or a field or object of some task group or task.
\<close>

theorem hasUpdate_force_iff_nonempty:
  assumes "Diff resp = Some d"
  shows "hasUpdate resp restart True =
     Inr (JobDiff_Objects d \<noteq> [] \<or> JobDiff_Fields d \<noteq> [] \<or> subgroup_changed d)"
  by (auto simp: hasUpdate_Some [OF assms])

theorem hasUpdate_force_iff_nonempty_witness:
  "Diff (plan_of (diff_of [field_commit] [group_same])) =
     Some (diff_of [field_commit] [group_same]) \<and>
   hasUpdate (plan_of (diff_of [field_commit] [group_same])) False True = Inr True"
proof -
  have d: "Diff (plan_of (diff_of [field_commit] [group_same])) =
     Some (diff_of [field_commit] [group_same])"
    by (simp add: plan_of_def)
  from hasUpdate_force_iff_nonempty [OF d, of False] d show ?thesis
    by (simp add: diff_of_def)
qed

text \<open>
  C4 (override completeness). When the only change of the diff is a single top-level
  field that is the source revision or the restart nonce, and \<open>restart\<close> or \<open>force\<close> is
  true, \<open>hasUpdate\<close> returns true.
\<close>

theorem hasUpdate_noise_only_override:
  assumes "Diff resp = Some d" and "noise_only d" and "restart \<or> force"
  shows "hasUpdate resp restart force = Inr True"
  using assms(2,3)
  by (auto simp: hasUpdate_Some [OF assms(1)] noise_only_def single_noise_field_def)

theorem hasUpdate_noise_only_override_witness:
  "noise_only (diff_of [field_restart] [group_same]) \<and>
   hasUpdate (plan_of (diff_of [field_restart] [group_same])) True False = Inr True \<and>
   hasUpdate (plan_of (diff_of [field_restart] [group_same])) False True = Inr True"
proof -
  let ?d = "diff_of [field_restart] [group_same]"
  have d: "Diff (plan_of ?d) = Some ?d"
    by (simp add: plan_of_def)
  have n: "noise_only ?d"
    by (simp add: shape_defs example_diff_defs)
  have "hasUpdate (plan_of ?d) True False = Inr True"
    by (rule hasUpdate_noise_only_override [OF d n]) simp
  moreover have "hasUpdate (plan_of ?d) False True = Inr True"
    by (rule hasUpdate_noise_only_override [OF d n]) simp
  ultimately show ?thesis
    using n by simp
qed

text \<open>
  C5 (multi-field veto). For a diff with two or more top-level field entries,
  \<open>hasUpdate\<close> returns true for all values of \<open>restart\<close> and \<open>force\<close>.
\<close>

theorem hasUpdate_two_fields:
  assumes "Diff resp = Some d" and "2 \<le> length (JobDiff_Fields d)"
  shows "hasUpdate resp restart force = Inr True"
proof -
  from assms(2) have "JobDiff_Fields d \<noteq> []" and "length (JobDiff_Fields d) \<noteq> 1"
    by auto
  then show ?thesis
    by (simp add: hasUpdate_Some [OF assms(1)])
qed

theorem hasUpdate_two_fields_witness:
  "2 \<le> length (JobDiff_Fields (diff_of [field_commit, field_restart] [])) \<and>
   hasUpdate (plan_of (diff_of [field_commit, field_restart] [])) False False = Inr True"
proof -
  let ?d = "diff_of [field_commit, field_restart] []"
  have d: "Diff (plan_of ?d) = Some ?d"
    by (simp add: plan_of_def)
  have l: "2 \<le> length (JobDiff_Fields ?d)"
    by (simp add: diff_of_def)
  from hasUpdate_two_fields [OF d l] l show ?thesis
    by simp
qed

text \<open>
  C10. When the only top-level field of the diff is the source revision or the restart
  nonce, \<open>restart\<close> and \<open>force\<close> are false, and some task group, or some task of a
  task group, has a non-empty field or object diff, \<open>hasUpdate\<close> returns true: the task
  groups are examined after the top-level fields were found to be noise.
\<close>

theorem hasUpdate_noise_field_subgroup_change:
  assumes "Diff resp = Some d" and "single_noise_field d" and "subgroup_changed d"
  shows "hasUpdate resp False False = Inr True"
  using assms(3) by (simp add: hasUpdate_Some [OF assms(1)])

theorem hasUpdate_noise_field_subgroup_change_witness:
  "single_noise_field (diff_of [field_commit] [group_same, group_task_edited]) \<and>
   subgroup_changed (diff_of [field_commit] [group_same, group_task_edited]) \<and>
   hasUpdate (plan_of (diff_of [field_commit] [group_same, group_task_edited])) False False =
     Inr True"
proof -
  let ?d = "diff_of [field_commit] [group_same, group_task_edited]"
  have d: "Diff (plan_of ?d) = Some ?d"
    by (simp add: plan_of_def)
  have n: "single_noise_field ?d"
    by (simp add: shape_defs example_diff_defs)
  have c: "subgroup_changed ?d"
    by (simp add: shape_defs example_diff_defs)
  from hasUpdate_noise_field_subgroup_change [OF d n c] n c show ?thesis
    by simp
qed


section \<open>Properties of the cluster state reader\<close>

lemmas example_world_defs =
  mixed_scheduler_def mixed_listing_def quiet_scheduler_def mixed_meta_def live_job_def
  source_s1_def world0_def job_info_def mixed_state_def

lemma fetched_0:
  "fetched sch q log0 (job # rest) 0 = fst (reply_Jobs_Info sch log0 (JobListStub_Name job) q)"
  by (simp add: fetched_def)

lemma fetched_Suc:
  "fetched sch q log0 (job # rest) (Suc i) =
     fetched sch q (log0 @ [Jobs_Info (JobListStub_Name job) q]) rest i"
  by (simp add: fetched_def)

text \<open>One round of the loop.\<close>

lemma GetCurrentClusterState_loop_step:
  assumes "GetCurrentClusterState_loop sch opts (job # rest) cs w = (Inr cs', w')"
  obtains j where
    "reply_Jobs_Info sch (calls w) (JobListStub_Name job) (getQueryOptsCtx (Options_Source opts))
       = (Some j, None)"
    and "GetCurrentClusterState_loop sch opts rest
       (if claimed_by (Options_Source opts) (Job_Meta j)
        then cs\<lparr>CurrentJobs := (CurrentJobs cs)(JobListStub_Name job \<mapsto>
               \<lparr>JobInfo_Job = j, JobInfo_GitInfo = \<lparr>GitInfo_GitCommit = []\<rparr>\<rparr>)\<rparr>
        else cs)
       (send (Jobs_Info (JobListStub_Name job) (getQueryOptsCtx (Options_Source opts))) w)
       = (Inr cs', w')"
proof -
  obtain jo err where r: "reply_Jobs_Info sch (calls w) (JobListStub_Name job)
      (getQueryOptsCtx (Options_Source opts)) = (jo, err)"
    by (cases "reply_Jobs_Info sch (calls w) (JobListStub_Name job)
      (getQueryOptsCtx (Options_Source opts))")
  from assms r obtain j where e: "err = None" and j: "jo = Some j"
    by (auto simp: Let_def split: option.splits)
  from assms r e j have "GetCurrentClusterState_loop sch opts rest
       (if claimed_by (Options_Source opts) (Job_Meta j)
        then cs\<lparr>CurrentJobs := (CurrentJobs cs)(JobListStub_Name job \<mapsto>
               \<lparr>JobInfo_Job = j, JobInfo_GitInfo = \<lparr>GitInfo_GitCommit = []\<rparr>\<rparr>)\<rparr>
        else cs)
       (send (Jobs_Info (JobListStub_Name job) (getQueryOptsCtx (Options_Source opts))) w)
       = (Inr cs', w')"
    by (cases "Job_Meta j") (auto simp: Let_def claimed_by_def split: if_splits)
  with r e j that show thesis
    by simp
qed

lemma GetCurrentClusterState_loop_keeps:
  assumes "GetCurrentClusterState_loop sch opts l cs w = (Inr cs', w')"
    and "CurrentJobs cs name \<noteq> None"
  shows "CurrentJobs cs' name \<noteq> None"
  using assms
proof (induction l arbitrary: cs w)
  case Nil
  then show ?case by simp
next
  case (Cons job rest)
  from Cons.prems(1) obtain j where
    run: "GetCurrentClusterState_loop sch opts rest
       (if claimed_by (Options_Source opts) (Job_Meta j)
        then cs\<lparr>CurrentJobs := (CurrentJobs cs)(JobListStub_Name job \<mapsto>
               \<lparr>JobInfo_Job = j, JobInfo_GitInfo = \<lparr>GitInfo_GitCommit = []\<rparr>\<rparr>)\<rparr>
        else cs)
       (send (Jobs_Info (JobListStub_Name job) (getQueryOptsCtx (Options_Source opts))) w)
       = (Inr cs', w')"
    by (rule GetCurrentClusterState_loop_step)
  show ?case
    by (rule Cons.IH [OF run]) (use Cons.prems(2) in simp)
qed

lemma GetCurrentClusterState_loop_includes:
  assumes "GetCurrentClusterState_loop sch opts l cs w = (Inr cs', w')"
    and "i < length l"
    and "fetched sch (getQueryOptsCtx (Options_Source opts)) (calls w) l i = Some j"
    and "claimed_by (Options_Source opts) (Job_Meta j)"
  shows "CurrentJobs cs' (JobListStub_Name (l ! i)) \<noteq> None"
  using assms
proof (induction l arbitrary: cs w i)
  case Nil
  then show ?case by simp
next
  case (Cons job rest)
  let ?q = "getQueryOptsCtx (Options_Source opts)"
  let ?w = "send (Jobs_Info (JobListStub_Name job) ?q) w"
  from Cons.prems(1) obtain j0 where
    r: "reply_Jobs_Info sch (calls w) (JobListStub_Name job) ?q = (Some j0, None)"
    and run: "GetCurrentClusterState_loop sch opts rest
       (if claimed_by (Options_Source opts) (Job_Meta j0)
        then cs\<lparr>CurrentJobs := (CurrentJobs cs)(JobListStub_Name job \<mapsto>
               \<lparr>JobInfo_Job = j0, JobInfo_GitInfo = \<lparr>GitInfo_GitCommit = []\<rparr>\<rparr>)\<rparr>
        else cs) ?w = (Inr cs', w')"
    by (rule GetCurrentClusterState_loop_step)
  show ?case
  proof (cases i)
    case 0
    with Cons.prems(3) r have "j0 = j"
      by (simp add: fetched_0)
    with Cons.prems(4) 0 show ?thesis
      by (intro GetCurrentClusterState_loop_keeps [OF run]) simp
  next
    case (Suc k)
    with Cons.prems(2) have k: "k < length rest"
      by simp
    from Cons.prems(3) Suc have f: "fetched sch ?q (calls ?w) rest k = Some j"
      by (simp add: fetched_Suc send_def)
    from Cons.IH [OF run k f Cons.prems(4)] Suc show ?thesis
      by simp
  qed
qed

lemma GetCurrentClusterState_loop_provenance:
  assumes "GetCurrentClusterState_loop sch opts l cs w = (Inr cs', w')"
    and "CurrentJobs cs' name = Some ji"
  shows "CurrentJobs cs name = Some ji \<or>
     (\<exists>i<length l. JobListStub_Name (l ! i) = name \<and>
        fetched sch (getQueryOptsCtx (Options_Source opts)) (calls w) l i =
          Some (JobInfo_Job ji) \<and>
        claimed_by (Options_Source opts) (Job_Meta (JobInfo_Job ji)))"
  using assms
proof (induction l arbitrary: cs w)
  case Nil
  then show ?case by simp
next
  case (Cons job rest)
  let ?q = "getQueryOptsCtx (Options_Source opts)"
  let ?w = "send (Jobs_Info (JobListStub_Name job) ?q) w"
  from Cons.prems(1) obtain j0 where
    r: "reply_Jobs_Info sch (calls w) (JobListStub_Name job) ?q = (Some j0, None)"
    and run: "GetCurrentClusterState_loop sch opts rest
       (if claimed_by (Options_Source opts) (Job_Meta j0)
        then cs\<lparr>CurrentJobs := (CurrentJobs cs)(JobListStub_Name job \<mapsto>
               \<lparr>JobInfo_Job = j0, JobInfo_GitInfo = \<lparr>GitInfo_GitCommit = []\<rparr>\<rparr>)\<rparr>
        else cs) ?w = (Inr cs', w')"
    by (rule GetCurrentClusterState_loop_step)
  let ?cs = "if claimed_by (Options_Source opts) (Job_Meta j0)
        then cs\<lparr>CurrentJobs := (CurrentJobs cs)(JobListStub_Name job \<mapsto>
               \<lparr>JobInfo_Job = j0, JobInfo_GitInfo = \<lparr>GitInfo_GitCommit = []\<rparr>\<rparr>)\<rparr>
        else cs"
  from Cons.IH [OF run Cons.prems(2)]
  consider (old) "CurrentJobs ?cs name = Some ji"
    | (later) i where "i < length rest" "JobListStub_Name (rest ! i) = name"
        "fetched sch ?q (calls ?w) rest i = Some (JobInfo_Job ji)"
        "claimed_by (Options_Source opts) (Job_Meta (JobInfo_Job ji))"
    by blast
  then show ?case
  proof cases
    case old
    show ?thesis
    proof (cases "CurrentJobs cs name = Some ji")
      case True
      then show ?thesis by simp
    next
      case False
      with old have c: "claimed_by (Options_Source opts) (Job_Meta j0)"
        and n: "JobListStub_Name job = name" and j: "JobInfo_Job ji = j0"
        by (auto split: if_splits)
      from r have "fetched sch ?q (calls w) (job # rest) 0 = Some j0"
        by (simp add: fetched_0)
      with c n j have "0 < length (job # rest) \<and> JobListStub_Name ((job # rest) ! 0) = name \<and>
        fetched sch ?q (calls w) (job # rest) 0 = Some (JobInfo_Job ji) \<and>
        claimed_by (Options_Source opts) (Job_Meta (JobInfo_Job ji))"
        by simp
      then show ?thesis
        by blast
    qed
  next
    case later
    then have "Suc i < length (job # rest) \<and> JobListStub_Name ((job # rest) ! Suc i) = name \<and>
        fetched sch ?q (calls w) (job # rest) (Suc i) = Some (JobInfo_Job ji) \<and>
        claimed_by (Options_Source opts) (Job_Meta (JobInfo_Job ji))"
      by (simp add: fetched_Suc send_def)
    then show ?thesis
      by blast
  qed
qed

lemma GetCurrentClusterState_mixed:
  "fst (GetCurrentClusterState mixed_scheduler \<lparr>Options_Source = source_s1\<rparr> world0) =
     Inr mixed_state"
  by (simp add: GetCurrentClusterState_def Let_def send_def lookup_def metaKey_defs
      example_world_defs getQueryOptsCtx_def)

text \<open>
  C1, as stated, fails: from a listing of mixed ownership the reader returns the job
  \<open>stray\<close>, whose metadata is not empty and names the source, but carries no ownership
  marker.
\<close>

theorem GetCurrentClusterState_unmarked_counterexample:
  "fst (GetCurrentClusterState mixed_scheduler \<lparr>Options_Source = source_s1\<rparr> world0) =
     Inr mixed_state \<and>
   CurrentJobs mixed_state ''stray'' = Some (job_info (live_job ''stray'' (mixed_meta ''stray''))) \<and>
   map_of (the (mixed_meta ''stray'')) metaKeyOps = None \<and>
   \<not> owned source_s1 (Job_Meta (JobInfo_Job (job_info (live_job ''stray'' (mixed_meta ''stray'')))))"
  by (simp add: GetCurrentClusterState_def Let_def send_def lookup_def metaKey_defs
      owned_def example_world_defs getQueryOptsCtx_def)

text \<open>
  C1, amended. When \<open>GetCurrentClusterState\<close> succeeds, every job of the cluster state
  it returns has metadata that is not empty and whose source identifier, read as the
  empty string when the key is missing, equals the identifier of the source, and is the
  definition fetched for an entry of the listing with that name. Conversely, for every
  entry of the listing whose fetched definition passes these two checks the cluster state
  holds a job under the name of the entry. The ownership marker is not read, so such a
  job is returned whether or not it carries the marker.
\<close>

theorem GetCurrentClusterState_claimed:
  assumes "GetCurrentClusterState sch opts w = (Inr cs, w')"
    and "reply_Jobs_List sch (calls w) (getQueryOptsCtx (Options_Source opts)) = (joblist, err)"
  shows "(\<forall>name ji. CurrentJobs cs name = Some ji \<longrightarrow>
            claimed_by (Options_Source opts) (Job_Meta (JobInfo_Job ji)) \<and>
            (\<exists>i<length joblist. JobListStub_Name (joblist ! i) = name \<and>
               fetched sch (getQueryOptsCtx (Options_Source opts))
                 (calls w @ [Jobs_List (getQueryOptsCtx (Options_Source opts))]) joblist i =
                 Some (JobInfo_Job ji))) \<and>
         (\<forall>i<length joblist. \<forall>j.
            fetched sch (getQueryOptsCtx (Options_Source opts))
              (calls w @ [Jobs_List (getQueryOptsCtx (Options_Source opts))]) joblist i = Some j \<and>
            claimed_by (Options_Source opts) (Job_Meta j) \<longrightarrow>
            CurrentJobs cs (JobListStub_Name (joblist ! i)) \<noteq> None)"
proof -
  let ?q = "getQueryOptsCtx (Options_Source opts)"
  let ?w = "send (Jobs_List ?q) w"
  from assms have run:
    "GetCurrentClusterState_loop sch opts joblist \<lparr>CurrentJobs = Map.empty\<rparr> ?w = (Inr cs, w')"
    by (auto simp: GetCurrentClusterState_def Let_def split: option.splits)
  have log: "calls ?w = calls w @ [Jobs_List ?q]"
    by (simp add: send_def)
  have a: "claimed_by (Options_Source opts) (Job_Meta (JobInfo_Job ji)) \<and>
            (\<exists>i<length joblist. JobListStub_Name (joblist ! i) = name \<and>
               fetched sch ?q (calls w @ [Jobs_List ?q]) joblist i = Some (JobInfo_Job ji))"
    if "CurrentJobs cs name = Some ji" for name ji
    using GetCurrentClusterState_loop_provenance [OF run that] unfolding log by auto
  have b: "CurrentJobs cs (JobListStub_Name (joblist ! i)) \<noteq> None"
    if "i < length joblist" "fetched sch ?q (calls w @ [Jobs_List ?q]) joblist i = Some j"
      "claimed_by (Options_Source opts) (Job_Meta j)" for i j
    using GetCurrentClusterState_loop_includes [OF run that(1) _ that(3)] that(2) unfolding log by simp
  from a b show ?thesis
    by blast
qed

theorem GetCurrentClusterState_claimed_witness:
  "fst (GetCurrentClusterState mixed_scheduler \<lparr>Options_Source = source_s1\<rparr> world0) =
     Inr mixed_state \<and>
   CurrentJobs mixed_state ''web'' = Some (job_info (live_job ''web'' (mixed_meta ''web''))) \<and>
   claimed_by source_s1 (mixed_meta ''web'') \<and>
   JobListStub_Name (mixed_listing ! 3) = ''stray'' \<and>
   fetched mixed_scheduler (getQueryOptsCtx source_s1) [Jobs_List (getQueryOptsCtx source_s1)]
     mixed_listing 3 = Some (live_job ''stray'' (mixed_meta ''stray'')) \<and>
   claimed_by source_s1 (mixed_meta ''stray'') \<and>
   CurrentJobs mixed_state ''stray'' \<noteq> None"
proof -
  let ?opts = "\<lparr>Options_Source = source_s1\<rparr>"
  let ?q = "getQueryOptsCtx source_s1"
  let ?run = "GetCurrentClusterState mixed_scheduler ?opts world0"
  have run: "?run = (Inr mixed_state, snd ?run)"
    using GetCurrentClusterState_mixed by (simp add: prod_eq_iff)
  have listing: "reply_Jobs_List mixed_scheduler (calls world0)
      (getQueryOptsCtx (Options_Source ?opts)) = (mixed_listing, None)"
    by (simp add: mixed_scheduler_def)
  note both = GetCurrentClusterState_claimed [OF run listing]
  have web: "CurrentJobs mixed_state ''web'' =
      Some (job_info (live_job ''web'' (mixed_meta ''web'')))"
    by (simp add: mixed_state_def)
  from both [THEN conjunct1, rule_format, OF web]
  have c_web: "claimed_by source_s1 (mixed_meta ''web'')"
    by (simp add: job_info_def live_job_def)
  have len: "3 < length mixed_listing"
    by (simp add: mixed_listing_def)
  have name: "JobListStub_Name (mixed_listing ! 3) = ''stray''"
    by (simp add: mixed_listing_def)
  have f: "fetched mixed_scheduler ?q [Jobs_List ?q] mixed_listing 3 =
      Some (live_job ''stray'' (mixed_meta ''stray''))"
    by (simp add: fetched_def mixed_scheduler_def name)
  have c_stray: "claimed_by source_s1 (mixed_meta ''stray'')"
    by (simp add: claimed_by_def mixed_meta_def lookup_def metaKey_defs source_s1_def)
  have "CurrentJobs mixed_state (JobListStub_Name (mixed_listing ! 3)) \<noteq> None"
  proof (rule both [THEN conjunct2, rule_format, of 3 "live_job ''stray'' (mixed_meta ''stray'')"])
    show "3 < length mixed_listing"
      by (rule len)
    show "fetched mixed_scheduler (getQueryOptsCtx (Options_Source ?opts))
        (calls world0 @ [Jobs_List (getQueryOptsCtx (Options_Source ?opts))]) mixed_listing 3 =
        Some (live_job ''stray'' (mixed_meta ''stray'')) \<and>
      claimed_by (Options_Source ?opts) (Job_Meta (live_job ''stray'' (mixed_meta ''stray'')))"
      using f c_stray by (simp add: world0_def live_job_def)
  qed
  with name GetCurrentClusterState_mixed web c_web f c_stray show ?thesis
    by simp
qed

section \<open>Properties of the apply protocol\<close>

lemmas run_defs =
  UpdateJob_plan_def UpdateJob_namespace_def UpdateJob_claim_def UpdateJob_status_def
  UpdateJob_apply_def new_map_def store_def send_def snapshot_def Let_def
  getWriteOptions_def getQueryOptsCtx_def

lemmas example_job_defs =
  desired_job_def now0_def changed_scheduler_def failing_scheduler_def quiet_scheduler_def
  source_s1_def world0_def world1_def

subsection \<open>The claim of a job\<close>

lemma UpdateJob_claim_written:
  "UpdateJob_claim src job restart now w =
     (let (r, w0) = (case Job_Meta (JobInfo_Job job) of None \<Rightarrow> new_map w | Some r \<Rightarrow> (r, w))
      in (job\<lparr>JobInfo_Job := (JobInfo_Job job)\<lparr>Job_Meta := Some r\<rparr>\<rparr>,
          w0\<lparr>heap := (heap w0)(r := written src job restart now (heap w0 r))\<rparr>))"
  by (simp add: UpdateJob_claim_def Let_def store_def written_def
      split: option.splits prod.splits)

lemma map_of_written:
  "map_of (written src job restart now m) = map_of m ++ tags src job restart now"
  by (rule ext) (simp add: written_def tags_def Let_def update_conv' map_add_def metaKey_defs)

text \<open>
  C9, as stated, fails: the claim writes into the metadata map the caller supplied. The
  job's map at address 0 holds one entry before and five after.
\<close>

theorem UpdateJob_claim_modifies_caller_map_counterexample:
  "Job_Meta (JobInfo_Job (desired_job (Some 0))) = Some 0 \<and>
   heap world1 0 = [(''team'', ''ops'')] \<and>
   heap (snd (UpdateJob_claim source_s1 (desired_job (Some 0)) False now0 world1)) 0 =
     [(''team'', ''ops''), (''nomadops'', ''true''),
      (''nomadopssrcurl'', ''https://git.example/repo.git''), (''nomadopssrcid'', ''s1''),
      (''nomadopssrccommit'', ''def'')] \<and>
   heap (snd (UpdateJob_claim source_s1 (desired_job (Some 0)) False now0 world1)) 0 \<noteq>
     heap world1 0"
  by (simp add: UpdateJob_claim_def Let_def store_def desired_job_def world1_def
      source_s1_def metaKey_defs)

text \<open>
  C9, amended. The claim is a function of the source, the job, the restart flag, the
  current time and the store. It writes to the job's own metadata map when the job has
  one, and to a new map otherwise; afterwards the job refers to that map, and the map
  holds what it held before, overwritten with: ownership marker \<open>true\<close>, source
  identifier, source URL, source revision, and the restart nonce set to the current time
  when a restart is requested (without a restart the entry of the nonce stays as it
  was). Every other map of the store, the log of scheduler calls and the other fields
  of the job are unchanged.
\<close>

theorem UpdateJob_claim_effect:
  assumes "UpdateJob_claim src job restart now w = (job', w')"
  shows "Job_Meta (JobInfo_Job job') = Some (metadata_ref job w) \<and>
     map_of (heap w' (metadata_ref job w)) =
       map_of (metadata_before job w) ++ tags src job restart now \<and>
     (\<forall>r. r \<noteq> metadata_ref job w \<longrightarrow> heap w' r = heap w r) \<and>
     calls w' = calls w \<and>
     JobInfo_GitInfo job' = JobInfo_GitInfo job \<and>
     Job_ID (JobInfo_Job job') = Job_ID (JobInfo_Job job) \<and>
     Job_Name (JobInfo_Job job') = Job_Name (JobInfo_Job job) \<and>
     Job_Namespace (JobInfo_Job job') = Job_Namespace (JobInfo_Job job)"
proof (cases "Job_Meta (JobInfo_Job job)")
  case None
  with assms
  have j: "job' = job\<lparr>JobInfo_Job := (JobInfo_Job job)\<lparr>Job_Meta := Some (fresh w)\<rparr>\<rparr>"
    and w: "w' = w\<lparr>heap := (heap w)(fresh w := written src job restart now []),
                   fresh := Suc (fresh w)\<rparr>"
    by (auto simp: UpdateJob_claim_written new_map_def Let_def)
  have r: "metadata_ref job w = fresh w" and b: "metadata_before job w = []"
    using None by (simp_all add: metadata_ref_def metadata_before_def)
  show ?thesis
    unfolding r b j w by (simp add: map_of_written)
next
  case (Some r0)
  with assms
  have j: "job' = job\<lparr>JobInfo_Job := (JobInfo_Job job)\<lparr>Job_Meta := Some r0\<rparr>\<rparr>"
    and w: "w' = w\<lparr>heap := (heap w)(r0 := written src job restart now (heap w r0))\<rparr>"
    by (auto simp: UpdateJob_claim_written Let_def)
  have r: "metadata_ref job w = r0" and b: "metadata_before job w = heap w r0"
    using Some by (simp_all add: metadata_ref_def metadata_before_def)
  show ?thesis
    unfolding r b j w by (simp add: map_of_written)
qed

theorem UpdateJob_claim_effect_witness:
  "metadata_ref (desired_job (Some 0)) world1 = 0 \<and>
   (5::nat) \<noteq> metadata_ref (desired_job (Some 0)) world1 \<and>
   Job_Meta (JobInfo_Job (fst (UpdateJob_claim source_s1 (desired_job (Some 0)) True now0
     world1))) = Some 0 \<and>
   map_of (heap (snd (UpdateJob_claim source_s1 (desired_job (Some 0)) True now0 world1)) 0) =
     [''team'' \<mapsto> ''ops'', ''nomadops'' \<mapsto> ''true'', ''nomadopssrcid'' \<mapsto> ''s1'',
      ''nomadopssrcurl'' \<mapsto> ''https://git.example/repo.git'',
      ''nomadopssrccommit'' \<mapsto> ''def'', ''nomadopsforcerestart'' \<mapsto> now0] \<and>
   heap (snd (UpdateJob_claim source_s1 (desired_job (Some 0)) True now0 world1)) 5 =
     heap world1 5"
proof -
  let ?c = "UpdateJob_claim source_s1 (desired_job (Some 0)) True now0 world1"
  have run: "?c = (fst ?c, snd ?c)"
    by simp
  have r: "metadata_ref (desired_job (Some 0)) world1 = 0"
    by (simp add: metadata_ref_def desired_job_def)
  have b: "metadata_before (desired_job (Some 0)) world1 = [(''team'', ''ops'')]"
    by (simp add: metadata_before_def desired_job_def world1_def)
  have t: "map_of [(''team'', ''ops'')] ++ tags source_s1 (desired_job (Some 0)) True now0 =
     [''team'' \<mapsto> ''ops'', ''nomadops'' \<mapsto> ''true'', ''nomadopssrcid'' \<mapsto> ''s1'',
      ''nomadopssrcurl'' \<mapsto> ''https://git.example/repo.git'',
      ''nomadopssrccommit'' \<mapsto> ''def'', ''nomadopsforcerestart'' \<mapsto> now0]"
    by (rule ext) (simp add: tags_def map_add_def metaKey_defs source_s1_def desired_job_def)
  from UpdateJob_claim_effect [OF run] r b t show ?thesis
    by simp
qed

subsection \<open>Scheduler calls of the protocol\<close>

lemma Contains_iff_sublist: "Contains s substr \<longleftrightarrow> sublist substr s"
  by (induction s) (simp_all add: sublist_Cons_right)

lemma calls_send: "calls (send c w) = calls w @ [c]"
  by (simp add: send_def)

lemma calls_store: "calls (store r k v w) = calls w"
  by (simp add: store_def)

lemma UpdateJob_claim_calls:
  "calls (snd (UpdateJob_claim src job restart now w)) = calls w"
  by (simp add: UpdateJob_claim_def Let_def calls_store new_map_def
      split: option.splits prod.splits)

lemma UpdateJob_namespace_registers:
  assumes "UpdateJob_namespace sch src job w = (r, w')"
  shows "filter is_Jobs_Register (calls w') = filter is_Jobs_Register (calls w)"
  using assms
  by (auto simp: UpdateJob_namespace_def Let_def calls_send is_Jobs_Register_def
      split: if_splits option.splits)

lemma UpdateJob_plan_registers:
  assumes "UpdateJob_plan sch src job restart now w = (r, job1, w1)"
  shows "filter is_Jobs_Register (calls w1) = filter is_Jobs_Register (calls w)"
proof -
  obtain e w0 where n: "UpdateJob_namespace sch src job w = (e, w0)"
    by (cases "UpdateJob_namespace sch src job w")
  note f0 = UpdateJob_namespace_registers [OF n]
  show ?thesis
  proof (cases e)
    case (Some err)
    with assms n f0 show ?thesis
      by (simp add: UpdateJob_plan_def)
  next
    case None
    obtain j wc where c: "UpdateJob_claim src job restart now w0 = (j, wc)"
      by (cases "UpdateJob_claim src job restart now w0")
    from UpdateJob_claim_calls [of src job restart now w0] c have cc: "calls wc = calls w0"
      by simp
    from assms n None c have
      "calls w1 = calls wc @ [Jobs_Plan (snapshot wc (JobInfo_Job j)) True (getWriteOptions src)]"
      by (auto simp: UpdateJob_plan_def Let_def calls_send split: prod.splits option.splits)
    with cc f0 show ?thesis
      by (simp add: is_Jobs_Register_def)
  qed
qed

lemma UpdateJob_status_registers:
  assumes "UpdateJob_status sch src job w = (r, w')"
  shows "filter is_Jobs_Register (calls w') = filter is_Jobs_Register (calls w)"
  using assms
  by (auto simp: UpdateJob_status_def Let_def calls_send is_Jobs_Register_def
      split: if_splits option.splits prod.splits)


subsection \<open>The paused source\<close>

text \<open>
  C6 (paused dry run). For a paused source, when the plan and the deployment query
  succeeded and the classifier reports that an update is required, \<open>UpdateJob\<close>
  returns \<open>Updated = true\<close> with the deployment status of the query, sends nothing
  after that query, and has sent no \<open>Jobs.Register\<close> call on the way.
\<close>

theorem UpdateJob_paused_dry_run:
  assumes "Source_Paused src"
    and "UpdateJob_plan sch src job restart now w = (Inr (Some r), job1, w1)"
    and "UpdateJob_status sch src job1 w1 = (Inr st, w2)"
    and "hasUpdate r restart (Source_Force src) = Inr True"
  shows "UpdateJob sch src job restart now w =
           (Inr \<lparr>Updated = True, UpdateJobInfo_DeploymentStatus = \<lparr>Status = st\<rparr>\<rparr>,
            job1, w2) \<and>
         filter is_Jobs_Register (calls w2) = filter is_Jobs_Register (calls w)"
proof -
  from assms(1,4) have
    "UpdateJob_apply sch src job1 restart (Some r) st w2 =
       (Inr \<lparr>Updated = True, UpdateJobInfo_DeploymentStatus = \<lparr>Status = st\<rparr>\<rparr>, w2)"
    by (simp add: UpdateJob_apply_def)
  with assms(2,3) have "UpdateJob sch src job restart now w =
      (Inr \<lparr>Updated = True, UpdateJobInfo_DeploymentStatus = \<lparr>Status = st\<rparr>\<rparr>, job1, w2)"
    by (simp add: UpdateJob_def)
  moreover
  from UpdateJob_plan_registers [OF assms(2)] UpdateJob_status_registers [OF assms(3)]
  have "filter is_Jobs_Register (calls w2) = filter is_Jobs_Register (calls w)"
    by simp
  ultimately show ?thesis
    by simp
qed

theorem UpdateJob_paused_dry_run_witness:
  "Source_Paused (source_s1\<lparr>Source_Paused := True\<rparr>) \<and>
   hasUpdate (plan_of (diff_of [field_count] [])) False
     (Source_Force (source_s1\<lparr>Source_Paused := True\<rparr>)) = Inr True \<and>
   fst (UpdateJob changed_scheduler (source_s1\<lparr>Source_Paused := True\<rparr>) (desired_job None)
          False now0 world0) =
     Inr \<lparr>Updated = True, UpdateJobInfo_DeploymentStatus = \<lparr>Status = ''successful''\<rparr>\<rparr> \<and>
   filter is_Jobs_Register
     (calls (snd (snd (UpdateJob changed_scheduler (source_s1\<lparr>Source_Paused := True\<rparr>)
        (desired_job None) False now0 world0)))) = []"
proof -
  let ?src = "source_s1\<lparr>Source_Paused := True\<rparr>"
  let ?p = "UpdateJob_plan changed_scheduler ?src (desired_job None) False now0 world0"
  let ?s = "UpdateJob_status changed_scheduler ?src (fst (snd ?p)) (snd (snd ?p))"
  have paused: "Source_Paused ?src"
    by simp
  have "fst ?p = Inr (Some (plan_of (diff_of [field_count] [])))"
    by (simp add: run_defs example_job_defs)
  then have plan:
    "?p = (Inr (Some (plan_of (diff_of [field_count] []))), fst (snd ?p), snd (snd ?p))"
    by (simp add: prod_eq_iff)
  have "fst ?s = Inr ''successful''"
    by (simp add: run_defs example_job_defs)
  then have status: "?s = (Inr ''successful'', snd ?s)"
    by (simp add: prod_eq_iff)
  have upd: "hasUpdate (plan_of (diff_of [field_count] [])) False (Source_Force ?src) = Inr True"
    by (simp add: hasUpdate_def example_diff_defs source_s1_def sprintf_Meta_def metaKey_defs)
  from UpdateJob_paused_dry_run [OF paused plan status upd] paused upd show ?thesis
    by (simp add: world0_def)
qed

subsection \<open>The deployment that is not found\<close>

text \<open>
  C8 (not-found tolerance). When the plan succeeded and the query of the latest
  deployment fails with error \<open>e\<close>: if the lower-cased text of \<open>e\<close> contains
  \<open>not found\<close>, \<open>UpdateJob\<close> goes on to its last part with the empty deployment
  status; otherwise \<open>UpdateJob\<close> returns the error \<open>e\<close>. Lower-casing acts on ASCII
  letters, which is what decides whether the ASCII text \<open>not found\<close> occurs.
\<close>

theorem UpdateJob_deployment_not_found:
  assumes "UpdateJob_plan sch src job restart now w = (Inr resp, job1, w1)"
    and "Job_ID (JobInfo_Job job1) = Some jid"
    and "reply_Jobs_LatestDeployment sch (calls w1) jid (getQueryOptsCtx src) = (None, Some e)"
  shows "UpdateJob sch src job restart now w =
     (let w2 = send (Jobs_LatestDeployment jid (getQueryOptsCtx src)) w1 in
      if sublist ''not found'' (ToLower e)
      then (case UpdateJob_apply sch src job1 restart resp [] w2 of
              (res, w3) \<Rightarrow> (res, job1, w3))
      else (Inl (Err e), job1, w2))"
proof -
  let ?w2 = "send (Jobs_LatestDeployment jid (getQueryOptsCtx src)) w1"
  from assms(2,3) have "UpdateJob_status sch src job1 w1 =
     (if sublist ''not found'' (ToLower e) then (Inr [], ?w2) else (Inl (Err e), ?w2))"
    by (simp add: UpdateJob_status_def Let_def Contains_iff_sublist)
  with assms(1) show ?thesis
    by (simp add: UpdateJob_def Let_def)
qed

theorem UpdateJob_deployment_not_found_witness:
  "sublist ''not found'' (ToLower not_found_404) \<and>
   fst (UpdateJob (failing_scheduler not_found_404) source_s1 (desired_job None) False now0
          world0) =
     Inr \<lparr>Updated = False, UpdateJobInfo_DeploymentStatus = \<lparr>Status = []\<rparr>\<rparr> \<and>
   \<not> sublist ''not found'' (ToLower server_error_500) \<and>
   fst (UpdateJob (failing_scheduler server_error_500) source_s1 (desired_job None) False now0
          world0) =
     Inl (Err server_error_500)"
proof -
  have yes: "sublist ''not found'' (ToLower not_found_404)"
    unfolding not_found_404_def by code_simp
  have no: "\<not> sublist ''not found'' (ToLower server_error_500)"
    unfolding server_error_500_def by code_simp
  have run: "UpdateJob (failing_scheduler e) source_s1 (desired_job None) False now0 world0 =
     (let w2 = send (Jobs_LatestDeployment ''web'' (getQueryOptsCtx source_s1))
                 (snd (snd (UpdateJob_plan (failing_scheduler e) source_s1 (desired_job None)
                    False now0 world0)))
      in if sublist ''not found'' (ToLower e)
         then (case UpdateJob_apply (failing_scheduler e) source_s1
                 (fst (snd (UpdateJob_plan (failing_scheduler e) source_s1 (desired_job None)
                    False now0 world0))) False (Some (plan_of (diff_of [] []))) [] w2 of
                 (res, w3) \<Rightarrow> (res, fst (snd (UpdateJob_plan (failing_scheduler e) source_s1
                    (desired_job None) False now0 world0)), w3))
         else (Inl (Err e), fst (snd (UpdateJob_plan (failing_scheduler e) source_s1
                    (desired_job None) False now0 world0)), w2))" for e
  proof -
    let ?p = "UpdateJob_plan (failing_scheduler e) source_s1 (desired_job None) False now0 world0"
    have "fst ?p = Inr (Some (plan_of (diff_of [] [])))"
      by (simp add: run_defs example_job_defs)
    then have plan: "?p = (Inr (Some (plan_of (diff_of [] []))), fst (snd ?p), snd (snd ?p))"
      by (simp add: prod_eq_iff)
    have jid: "Job_ID (JobInfo_Job (fst (snd ?p))) = Some ''web''"
      by (simp add: run_defs example_job_defs)
    have reply: "reply_Jobs_LatestDeployment (failing_scheduler e) (calls (snd (snd ?p))) ''web''
        (getQueryOptsCtx source_s1) = (None, Some e)"
      by (simp add: failing_scheduler_def)
    from UpdateJob_deployment_not_found [OF plan jid reply] show ?thesis .
  qed
  have fin: "fst (UpdateJob_apply sch source_s1 j False (Some (plan_of (diff_of [] []))) [] w2) =
      Inr \<lparr>Updated = False, UpdateJobInfo_DeploymentStatus = \<lparr>Status = []\<rparr>\<rparr>" for sch j w2
    by (simp add: UpdateJob_apply_def hasUpdate_def example_diff_defs source_s1_def)
  from yes no run [of not_found_404] run [of server_error_500] fin show ?thesis
    by (simp add: Let_def case_prod_beta)
qed

section \<open>Properties of the change event watcher\<close>

lemmas example_event_defs =
  event_malformed_def event_job_def event_deployment_def batch_of_def live_job_def

text \<open>An event of a handled type whose payload cannot be decoded ends the handling of
  its batch: the handler returns, and the events behind it are not looked at.\<close>

lemma eventHandler_loop_decode_error:
  assumes "Event_Payload e = Inl err"
    and "Event_Type e \<in> {''JobRegistered'', ''JobDeregistered'', ''DeploymentStatusUpdate''}"
  shows "eventHandler_loop (e # rest) cb = (None, cb)"
  using assms by (auto simp: Event_Job_def Event_Deployment_def)

text \<open>
  C7. One event that cannot be decoded should cost that event only. In the code it costs
  the rest of its batch: the batch below holds a malformed event followed by a
  registered job \<open>web\<close> and a deployment update of \<open>api\<close>, both decodable, and the
  callback is invoked for neither. The subscription loop itself goes on: the event of
  the next batch reaches the callback, and the loop waits for more.
\<close>

theorem eventHandler_drops_rest_of_batch:
  "map decodable_name
     [event_malformed, event_job ''JobRegistered'' ''web'', event_deployment ''api''] =
     [None, Some ''web'', Some ''api''] \<and>
   eventHandler
     (batch_of [event_malformed, event_job ''JobRegistered'' ''web'', event_deployment ''api''])
     [] = (None, []) \<and>
   subscription_loop
     [Received (batch_of [event_malformed, event_job ''JobRegistered'' ''web'',
        event_deployment ''api'']),
      Received (batch_of [event_job ''JobDeregistered'' ''db''])] [] = (Waiting, [''db''])"
  by (simp add: eventHandler_def IsHeartbeat_def Event_Job_def Event_Deployment_def
      example_event_defs)


end
